theory Spec2Isabelle
  imports Main
begin

section \<open>JavaScript values and objects\<close>

text \<open>
  The values that flow through the hook are entity fields, ids and route parameters.
  Primitive values are modelled by their content; \<open>NaN\<close> is kept apart from the other
  numbers because it is the one primitive that is not strictly equal to itself; nested
  objects and arrays are never inspected by the hook (every operation on an entity is
  shallow), so they are modelled as references \<open>Ref\<close>, compared by identity.
\<close>

datatype jsval = Undefined | Null | Bool bool | Num int | NaN | Str string | Ref nat

text \<open>
  An object is a finite map from property names to values. A property that is present
  with the value \<open>undefined\<close> (\<open>Some Undefined\<close>) is different from an absent property
  (\<open>None\<close>): \<open>Object.entries\<close> and \<open>Object.assign\<close> see the first and not the second.
\<close>

type_synonym obj = "string \<rightharpoonup> jsval"

text \<open>JavaScript truthiness, as tested by \<open>!x\<close>, \<open>if (x)\<close> and \<open>x ? a : b\<close>.\<close>

fun truthy :: "jsval \<Rightarrow> bool" where
  "truthy Undefined = False"
| "truthy Null = False"
| "truthy (Bool b) = b"
| "truthy (Num n) = (n \<noteq> 0)"
| "truthy NaN = False"
| "truthy (Str s) = (s \<noteq> [])"
| "truthy (Ref r) = True"

text \<open>Strict equality \<open>a === b\<close>.\<close>

definition strict_eq :: "jsval \<Rightarrow> jsval \<Rightarrow> bool" where
  "strict_eq a b = (a = b \<and> a \<noteq> NaN)"

text \<open>Property read \<open>o.k\<close>: an absent property reads as \<open>undefined\<close>.\<close>

definition get_prop :: "obj \<Rightarrow> string \<Rightarrow> jsval" where
  "get_prop ob k = (case ob k of None \<Rightarrow> Undefined | Some v \<Rightarrow> v)"

text \<open>
  \<open>Object.assign(target, source)\<close>: every own property of \<open>source\<close> (also one whose value
  is \<open>undefined\<close>) is written to \<open>target\<close>, which is returned. The source mutates \<open>target\<close>
  in place; the model returns the updated object.
\<close>

definition Object_assign :: "obj \<Rightarrow> obj \<Rightarrow> obj" where
  "Object_assign target source = target ++ source"

text \<open>
  \<open>filter\<close> of \<open>util\<close>:
  \<open>Object.fromEntries(Object.entries(input).filter(([,value]) => value !== undefined))\<close>.
\<close>

definition filter_obj :: "obj \<Rightarrow> obj" where
  "filter_obj input =
     (\<lambda>k. case input k of
            None \<Rightarrow> None
          | Some v \<Rightarrow> if v \<noteq> Undefined then Some v else None)"

section \<open>Options, state and effects of \<open>useResource\<close>\<close>

datatype UpdateMethod = OnSuccess | Immediate | LocalOnly

text \<open>
  The state cell \<open>useState<T[] | T>\<close>: \<open>null\<close>, one entity, or an array of entities.
\<close>

datatype st = SNull | SObj obj | SArr "obj list"

text \<open>
  \<open>TypeError\<close> is what JavaScript throws for a method call on \<open>null\<close> or for a call of
  something that is not a function (\<open>prev.map\<close> where \<open>prev\<close> is no array), and for
  \<open>Object.assign(null, _)\<close>. \<open>RequestFailed\<close> is a rejected promise of the HTTP client.
\<close>

datatype error = TypeError | RequestFailed

text \<open>
  The options of \<open>useResource\<close> after destructuring, that is with the defaults filled in:
  \<open>defaultUpdateMethod\<close> is \<open>"on-success"\<close> and both transformers are the identity when
  the caller leaves them out (\<open>default_options\<close> below). The transformers may be
  asynchronous in the source; they are awaited wherever they are called, so the model
  applies them as functions. A custom handler that returns \<open>null\<close> or \<open>undefined\<close> is
  modelled as returning \<open>SNull\<close>.
\<close>

record options =
  opt_id :: jsval
  paramNameOverride :: "string option"
  params :: "obj option"
  eventOverrideProp :: "string option"
  defaultUpdateMethod :: UpdateMethod
  transformer :: "obj \<Rightarrow> obj"
  inverseTransformer :: "obj \<Rightarrow> obj"
  onCreated :: "(obj \<Rightarrow> st \<Rightarrow> st) option"
  onUpdated :: "(obj \<Rightarrow> st \<Rightarrow> st) option"
  onDestroyed :: "(jsval \<Rightarrow> st \<Rightarrow> st) option"

text \<open>
  The arguments of a \<open>routeFunction\<close> call (the route resolver is an external
  collaborator, so a route is identified by what is passed to it), and the requests
  handed to the HTTP client.
\<close>

datatype route = Route string "obj option"

datatype request = Post route obj | Put route obj | Delete route

text \<open>
  What a call does besides changing the state: the requests it hands to the HTTP client,
  and, in singular mode, the call of the \<open>onDestroyed\<close> side-effect handler.
\<close>

datatype effect = Request request | Called_onDestroyed jsval

text \<open>
  The part of the hook's state the mutation operations read and write: the state cell,
  the event override taken from the \<open>x-socket-event\<close> header of the last fetch
  (\<open>Null\<close> when there is none), and the effects so far. A mutation callback reads the
  override of the render it was created in; the model reads it from the binding the
  call starts from. The option \<open>socketEvent\<close> (\<open>eventOverrideProp\<close>) only names the
  channels and is not read by the mutations.
\<close>

record binding =
  state :: st
  eventOverride :: jsval
  trace :: "effect list"

text \<open>
  What the HTTP client answers to the request of a call: a response with its \<open>data\<close>,
  or a rejection.
\<close>

datatype response = Resolved obj | Rejected

text \<open>
  The result of an operation: it ran to its end, or it threw, with the binding as it was
  at that moment (nothing is rolled back).
\<close>

datatype outcome = Done binding | Threw error binding

fun binding_of :: "outcome \<Rightarrow> binding" where
  "binding_of (Done b) = b"
| "binding_of (Threw e b) = b"

section \<open>Route parameter name\<close>

text \<open>\<open>resource.split(".")\<close>: the segments between the dots, at least one.\<close>

fun split_dot :: "string \<Rightarrow> string list" where
  "split_dot [] = [[]]"
| "split_dot (c # cs) =
     (if c = CHR ''.'' then [] # split_dot cs
      else (case split_dot cs of
              [] \<Rightarrow> [[c]]
            | seg # segs \<Rightarrow> (c # seg) # segs))"

text \<open>
  \<open>paramNameOverride ?? pluralize.singular(resource.split(".").pop())\<close>. The function
  \<open>pluralize.singular\<close> belongs to an external package and is a parameter, \<open>singular\<close>.
  \<open>split\<close> never returns an empty array (\<open>split_dot_not_Nil\<close>), so \<open>pop\<close> is \<open>last\<close>.
\<close>

definition paramName :: "(string \<Rightarrow> string) \<Rightarrow> options \<Rightarrow> string \<Rightarrow> string" where
  "paramName singular opts resource =
     (case paramNameOverride opts of
        Some p \<Rightarrow> p
      | None \<Rightarrow> singular (last (split_dot resource)))"

section \<open>Reducers\<close>

text \<open>\<open>isArray\<close>: \<open>return !id\<close>. The state is not looked at.\<close>

definition isArray :: "options \<Rightarrow> bool" where
  "isArray opts = (\<not> truthy (opt_id opts))"

text \<open>
  \<open>handle\<close>: \<open>setState(prev => handler?.(item, prev) ?? defaultHandler(item, prev))\<close>.
  This is the function given to \<open>setState\<close>; \<open>setState\<close> is modelled as applying it to
  the current state at once.
\<close>

definition handle ::
  "('a \<Rightarrow> st \<Rightarrow> st) option \<Rightarrow> ('a \<Rightarrow> st \<Rightarrow> error + st) \<Rightarrow> 'a \<Rightarrow> st \<Rightarrow> error + st" where
  "handle handler defaultHandler item prev =
     (case handler of
        None \<Rightarrow> defaultHandler item prev
      | Some h \<Rightarrow>
          (case h item prev of
             SNull \<Rightarrow> defaultHandler item prev
           | r \<Rightarrow> Inr r))"

text \<open>
  The default created reducer:
  \<open>(prev as T[]).find(s => s.id === item.id) ? prev : [...prev as T[], item]\<close>.
  What \<open>find\<close> returns is an entity, an object, hence truthy.
\<close>

definition created_default :: "obj \<Rightarrow> st \<Rightarrow> error + st" where
  "created_default item prev =
     (case prev of
        SArr xs \<Rightarrow>
          (case find (\<lambda>s. strict_eq (get_prop s ''id'') (get_prop item ''id'')) xs of
             Some s \<Rightarrow> Inr prev
           | None \<Rightarrow> Inr (SArr (xs @ [item])))
      | _ \<Rightarrow> Inl TypeError)"

text \<open>
  The default updated reducer:
  \<open>isArray(prev) ? prev.map(s => s.id === item.id ? Object.assign(s, item) : s)
                  : Object.assign(prev, item)\<close>.
  When an id is bound and the state is an array all the same, \<open>Object.assign\<close> writes the
  fields on the array object itself; its elements stay as they are, and the model's
  lists carry no such extra fields.
\<close>

definition updated_default :: "options \<Rightarrow> obj \<Rightarrow> st \<Rightarrow> error + st" where
  "updated_default opts item prev =
     (if isArray opts then
        (case prev of
           SArr xs \<Rightarrow>
             Inr (SArr (map (\<lambda>s. if strict_eq (get_prop s ''id'') (get_prop item ''id'')
                                  then Object_assign s item else s) xs))
         | _ \<Rightarrow> Inl TypeError)
      else
        (case prev of
           SNull \<Rightarrow> Inl TypeError
         | SObj s \<Rightarrow> Inr (SObj (Object_assign s item))
         | SArr xs \<Rightarrow> Inr (SArr xs)))"

text \<open>
  The default destroyed reducer of collection mode:
  \<open>(prev as T[]).filter(s => s.id !== id)\<close>.
\<close>

definition destroyed_default :: "jsval \<Rightarrow> st \<Rightarrow> error + st" where
  "destroyed_default delId prev =
     (case prev of
        SArr xs \<Rightarrow> Inr (SArr (filter (\<lambda>s. \<not> strict_eq (get_prop s ''id'') delId) xs))
      | _ \<Rightarrow> Inl TypeError)"

text \<open>\<open>setState(f)\<close> on the binding; an exception of \<open>f\<close> leaves the state as it is.\<close>

definition setState :: "(st \<Rightarrow> error + st) \<Rightarrow> binding \<Rightarrow> outcome" where
  "setState f b =
     (case f (state b) of
        Inl e \<Rightarrow> Threw e b
      | Inr s \<Rightarrow> Done (b\<lparr>state := s\<rparr>))"

definition handleCreated :: "options \<Rightarrow> obj \<Rightarrow> binding \<Rightarrow> outcome" where
  "handleCreated opts item b = setState (handle (onCreated opts) created_default item) b"

definition handleUpdated :: "options \<Rightarrow> obj \<Rightarrow> binding \<Rightarrow> outcome" where
  "handleUpdated opts item b =
     setState (handle (onUpdated opts) (updated_default opts) item) b"

text \<open>
  \<open>handleDestroyed\<close>: under \<open>if (id)\<close>, \<open>onDestroyed?.(delId); setState(null)\<close>, the
  handler being called without a previous state and its result dropped; otherwise
  \<open>setState(prev => onDestroyed?.(delId, prev) ?? prev.filter(s => s.id !== delId))\<close>.
\<close>

definition handleDestroyed :: "options \<Rightarrow> jsval \<Rightarrow> binding \<Rightarrow> outcome" where
  "handleDestroyed opts delId b =
     (if truthy (opt_id opts) then
        (let b1 = (case onDestroyed opts of
                     None \<Rightarrow> b
                   | Some h \<Rightarrow> b\<lparr>trace := trace b @ [Called_onDestroyed delId]\<rparr>)
         in Done (b1\<lparr>state := SNull\<rparr>))
      else setState (handle (onDestroyed opts) destroyed_default delId) b)"

section \<open>Socket events\<close>

text \<open>
  \<open>useSocket(!id && `${event}.created`, async item => handleCreated(filter(await transformer(item))))\<close>:
  with an id bound the channel name is \<open>false\<close>, there is no subscription, and a created
  event changes nothing. The two other channels are subscribed in both modes:
  \<open>async item => handleUpdated(filter(await transformer(item)))\<close> and \<open>handleDestroyed\<close>.
\<close>

definition created_event :: "options \<Rightarrow> obj \<Rightarrow> binding \<Rightarrow> outcome" where
  "created_event opts item b =
     (if \<not> truthy (opt_id opts)
      then handleCreated opts (filter_obj (transformer opts item)) b
      else Done b)"

definition updated_event :: "options \<Rightarrow> obj \<Rightarrow> binding \<Rightarrow> outcome" where
  "updated_event opts item b = handleUpdated opts (filter_obj (transformer opts item)) b"

definition destroyed_event :: "options \<Rightarrow> jsval \<Rightarrow> binding \<Rightarrow> outcome" where
  "destroyed_event opts delId b = handleDestroyed opts delId b"

section \<open>Mutation operations\<close>

text \<open>\<open>updateMethodOverride ?? defaultUpdateMethod\<close>.\<close>

definition effectiveMethod :: "options \<Rightarrow> UpdateMethod option \<Rightarrow> UpdateMethod" where
  "effectiveMethod opts updateMethodOverride =
     (case updateMethodOverride of
        None \<Rightarrow> defaultUpdateMethod opts
      | Some m \<Rightarrow> m)"

definition issue :: "request \<Rightarrow> binding \<Rightarrow> binding" where
  "issue r b = b\<lparr>trace := trace b @ [Request r]\<rparr>"

text \<open>The object spread \<open>{[key]: v, ...rest}\<close>: the fields of \<open>rest\<close> win.\<close>

definition spread :: "string \<Rightarrow> jsval \<Rightarrow> obj option \<Rightarrow> obj" where
  "spread key v rest = (case rest of None \<Rightarrow> [key \<mapsto> v] | Some r \<Rightarrow> [key \<mapsto> v] ++ r)"

text \<open>
  The routes of the three mutations:
  \<open>routeFunction(`${resource}.store`, params)\<close>,
  \<open>routeFunction(`${resource}.update`, {[paramName]: id, ...params})\<close> and
  \<open>routeFunction(`${resource}.destroy`, {[paramName]: id, ...params})\<close>.
\<close>

definition storeRoute :: "options \<Rightarrow> string \<Rightarrow> route" where
  "storeRoute opts resource = Route (resource @ ''.store'') (params opts)"

definition updateRoute :: "(string \<Rightarrow> string) \<Rightarrow> options \<Rightarrow> string \<Rightarrow> jsval \<Rightarrow> route" where
  "updateRoute singular opts resource ident =
     Route (resource @ ''.update'')
       (Some (spread (paramName singular opts resource) ident (params opts)))"

definition destroyRoute :: "(string \<Rightarrow> string) \<Rightarrow> options \<Rightarrow> string \<Rightarrow> jsval \<Rightarrow> route" where
  "destroyRoute singular opts resource ident =
     Route (resource @ ''.destroy'')
       (Some (spread (paramName singular opts resource) ident (params opts)))"

text \<open>
  \<open>store\<close>. The body is \<open>await inverseTransformer(item)\<close>, as it is. \<open>resp\<close> is the
  answer of the HTTP client to the post request.
\<close>

definition store :: "options \<Rightarrow> string \<Rightarrow> binding \<Rightarrow> obj \<Rightarrow> response \<Rightarrow> outcome" where
  "store opts resource b item resp =
     (let b1 = issue (Post (storeRoute opts resource) (inverseTransformer opts item)) b
      in case resp of
           Rejected \<Rightarrow> Threw RequestFailed b1
         | Resolved data \<Rightarrow>
             if \<not> truthy (eventOverride b)
             then handleCreated opts (filter_obj (transformer opts data)) b1
             else Done b1)"

text \<open>
  \<open>updateList\<close>. \<open>resp\<close> is the answer to the put request, if one is issued. On the
  path of \<open>"immediate"\<close> the call of \<open>handleUpdated\<close> is followed by the put request:
  an exception of the updater is raised by React when it runs the updater and does not
  reach the caller of \<open>setState\<close>, so the request is issued all the same. The outcome
  then names the rejection of the request when there is one, and else the exception of
  the updater.
\<close>

definition updateList ::
  "(string \<Rightarrow> string) \<Rightarrow> options \<Rightarrow> string \<Rightarrow> binding \<Rightarrow> jsval \<Rightarrow> obj \<Rightarrow>
     UpdateMethod option \<Rightarrow> response \<Rightarrow> outcome" where
  "updateList singular opts resource b ident update updateMethodOverride resp =
     (let updateMethod = effectiveMethod opts updateMethodOverride;
          route = updateRoute singular opts resource ident
      in if updateMethod = OnSuccess then
           (let b1 = issue (Put route (filter_obj (inverseTransformer opts update))) b
            in case resp of
                 Rejected \<Rightarrow> Threw RequestFailed b1
               | Resolved data \<Rightarrow>
                   (let transformed = filter_obj (transformer opts data)
                    in if \<not> truthy (eventOverride b)
                       then handleUpdated opts transformed b1
                       else Done b1))
         else
           (let r = handleUpdated opts (spread ''id'' ident (Some update)) b
            in if updateMethod = Immediate then
                 (let b2 = issue (Put route (filter_obj (inverseTransformer opts update)))
                             (binding_of r)
                  in case resp of
                       Rejected \<Rightarrow> Threw RequestFailed b2
                     | Resolved data \<Rightarrow>
                         (case r of
                            Threw e b1 \<Rightarrow> Threw e b2
                          | Done b1 \<Rightarrow> Done b2))
               else r))"

definition updateSingle ::
  "(string \<Rightarrow> string) \<Rightarrow> options \<Rightarrow> string \<Rightarrow> binding \<Rightarrow> obj \<Rightarrow>
     UpdateMethod option \<Rightarrow> response \<Rightarrow> outcome" where
  "updateSingle singular opts resource b update updateMethodOverride resp =
     updateList singular opts resource b (opt_id opts) update updateMethodOverride resp"

text \<open>
  \<open>destroyList\<close>. The delete request is issued unless the method is \<open>"local-only"\<close>, and
  awaited unless it is \<open>"immediate"\<close>; \<open>resp\<close> is its answer.
\<close>

definition destroyList ::
  "(string \<Rightarrow> string) \<Rightarrow> options \<Rightarrow> string \<Rightarrow> binding \<Rightarrow> jsval \<Rightarrow>
     UpdateMethod option \<Rightarrow> response \<Rightarrow> outcome" where
  "destroyList singular opts resource b ident updateMethodOverride resp =
     (let updateMethod = effectiveMethod opts updateMethodOverride;
          b1 = (if updateMethod \<noteq> LocalOnly
                then issue (Delete (destroyRoute singular opts resource ident)) b
                else b)
      in if updateMethod = OnSuccess \<and> resp = Rejected then Threw RequestFailed b1
         else if \<not> truthy (eventOverride b) \<or> updateMethod \<noteq> OnSuccess
              then handleDestroyed opts ident b1
              else Done b1)"

definition destroySingle ::
  "(string \<Rightarrow> string) \<Rightarrow> options \<Rightarrow> string \<Rightarrow> binding \<Rightarrow>
     UpdateMethod option \<Rightarrow> response \<Rightarrow> outcome" where
  "destroySingle singular opts resource b updateMethodOverride resp =
     destroyList singular opts resource b (opt_id opts) updateMethodOverride resp"

section \<open>Concrete options, entities and bindings\<close>

text \<open>
  The options of a call \<open>useResource(resource)\<close> without an options object: every
  destructuring default of the source.
\<close>

definition default_options :: options where
  "default_options =
     \<lparr>opt_id = Undefined, paramNameOverride = None, params = None,
      eventOverrideProp = None, defaultUpdateMethod = OnSuccess,
      transformer = (\<lambda>item. item), inverseTransformer = (\<lambda>item. item),
      onCreated = None, onUpdated = None, onDestroyed = None\<rparr>"

text \<open>Singular mode, bound to the id 1; and the same with an \<open>onDestroyed\<close> handler.\<close>

definition single_options :: options where
  "single_options = default_options\<lparr>opt_id := Num 1\<rparr>"

definition void_handler :: "jsval \<Rightarrow> st \<Rightarrow> st" where
  "void_handler delId prev = SNull"

definition single_options_notify :: options where
  "single_options_notify = single_options\<lparr>onDestroyed := Some void_handler\<rparr>"

definition post_a :: obj where
  "post_a = [''id'' \<mapsto> Num 1, ''title'' \<mapsto> Str ''a'']"

definition post_b :: obj where
  "post_b = [''id'' \<mapsto> Num 2, ''title'' \<mapsto> Str ''b'']"

definition post_a_b :: obj where
  "post_a_b = [''id'' \<mapsto> Num 1, ''title'' \<mapsto> Str ''b'']"

definition post_a_c :: obj where
  "post_a_c = [''id'' \<mapsto> Num 1, ''title'' \<mapsto> Str ''c'']"

definition title_b :: obj where
  "title_b = [''title'' \<mapsto> Str ''b'']"

definition title_c :: obj where
  "title_c = [''title'' \<mapsto> Str ''c'']"

definition user5 :: obj where
  "user5 = [''id'' \<mapsto> Num 5, ''name'' \<mapsto> Str ''w'', ''age'' \<mapsto> Num 30]"

definition user5_x :: obj where
  "user5_x = [''id'' \<mapsto> Num 5, ''name'' \<mapsto> Str ''x'', ''age'' \<mapsto> Num 30]"

definition rename5 :: obj where
  "rename5 = [''id'' \<mapsto> Num 5, ''name'' \<mapsto> Str ''x'']"

definition partial_item :: obj where
  "partial_item = [''name'' \<mapsto> Undefined, ''age'' \<mapsto> Num 5]"

definition post_b_c :: obj where
  "post_b_c = [''id'' \<mapsto> Num 2, ''title'' \<mapsto> Str ''c'']"

definition retitle2 :: obj where
  "retitle2 = [''id'' \<mapsto> Num 2, ''title'' \<mapsto> Str ''c'']"

definition article :: obj where
  "article = [''id'' \<mapsto> Num 1, ''title'' \<mapsto> Str ''a'', ''body'' \<mapsto> Str ''x'']"

definition article_c :: obj where
  "article_c = [''id'' \<mapsto> Num 1, ''title'' \<mapsto> Str ''c'', ''body'' \<mapsto> Str ''x'']"

definition two_binding :: binding where
  "two_binding = \<lparr>state = SArr [post_a, post_b], eventOverride = Null, trace = []\<rparr>"

definition two_binding_override :: binding where
  "two_binding_override =
     \<lparr>state = SArr [post_a, post_b], eventOverride = Str ''posts.7'', trace = []\<rparr>"

definition article_binding :: binding where
  "article_binding = \<lparr>state = SObj article, eventOverride = Null, trace = []\<rparr>"

definition coll_binding :: binding where
  "coll_binding = \<lparr>state = SArr [post_a], eventOverride = Null, trace = []\<rparr>"

definition coll_binding_override :: binding where
  "coll_binding_override =
     \<lparr>state = SArr [post_a], eventOverride = Str ''posts.7'', trace = []\<rparr>"

definition single_binding :: binding where
  "single_binding = \<lparr>state = SObj post_a, eventOverride = Null, trace = []\<rparr>"

text \<open>
  A stand-in for \<open>pluralize.singular\<close> in the examples: it drops one final \<open>s\<close>.
\<close>

definition drop_final_s :: "string \<Rightarrow> string" where
  "drop_final_s w = (if w \<noteq> [] \<and> last w = CHR ''s'' then butlast w else w)"

text \<open>
  The specification's wording of the default parameter name speaks of the final
  dot-delimited segment of the resource name: the characters after the last dot, or
  the whole name when it has no dot. This definition follows those words; the theorem
  on \<open>paramName\<close> compares it with what \<open>split\<close> and \<open>pop\<close> compute.
\<close>

definition final_segment :: "string \<Rightarrow> string" where
  "final_segment resource = rev (takeWhile (\<lambda>c. c \<noteq> CHR ''.'') (rev resource))"

section \<open>Basic facts\<close>

lemma split_dot_not_Nil: "split_dot r \<noteq> []"
  by (induction r) (auto split: list.splits)

lemma find_None_set: "(find P xs = None) = (\<forall>x\<in>set xs. \<not> P x)"
  by (induction xs) auto

lemma strict_eq_same: "strict_eq a b \<Longrightarrow> a = b"
  by (simp add: strict_eq_def)

lemma Object_assign_lookup:
  "Object_assign s item k = (case item k of Some v \<Rightarrow> Some v | None \<Rightarrow> s k)"
  by (simp add: Object_assign_def map_add_def)

lemma Object_assign_id:
  assumes "strict_eq (get_prop s ''id'') (get_prop item ''id'')"
  shows "get_prop (Object_assign s item) ''id'' = get_prop s ''id''"
  using strict_eq_same [OF assms]
  by (simp add: get_prop_def Object_assign_lookup split: option.splits)

lemma filter_obj_lookup:
  "filter_obj m k = (if m k = Some Undefined then None else m k)"
  by (simp add: filter_obj_def split: option.splits)

lemma filter_obj_no_undefined:
  assumes "\<forall>k. m k \<noteq> Some Undefined"
  shows "filter_obj m = m"
  using assms by (simp add: fun_eq_iff filter_obj_lookup)

lemma spread_lookup:
  "spread key v (Some r) k =
     (case r k of Some w \<Rightarrow> Some w | None \<Rightarrow> if k = key then Some v else None)"
  by (auto simp: spread_def map_add_def split: option.splits)

lemma issue_state: "state (issue r b) = state b"
  by (simp add: issue_def)

lemma issue_trace: "trace (issue r b) = trace b @ [Request r]"
  by (simp add: issue_def)

lemma created_default_array:
  "created_default item (SArr xs) =
     Inr (SArr (if \<exists>s\<in>set xs. strict_eq (get_prop s ''id'') (get_prop item ''id'')
                then xs else xs @ [item]))"
  using find_None_set [of "\<lambda>s. strict_eq (get_prop s ''id'') (get_prop item ''id'')" xs]
  by (auto simp: created_default_def split: option.splits)

lemma handleCreated_default:
  assumes "onCreated opts = None" and "state b = SArr xs"
  shows "handleCreated opts item b =
           Done (b\<lparr>state := SArr (if \<exists>s\<in>set xs. strict_eq (get_prop s ''id'') (get_prop item ''id'')
                                    then xs else xs @ [item])\<rparr>)"
  using assms
  by (simp add: handleCreated_def setState_def handle_def created_default_array)

lemma handleCreated_trace: "trace (binding_of (handleCreated opts item b)) = trace b"
  by (simp add: handleCreated_def setState_def split: sum.splits)

lemma handleUpdated_collection_default:
  assumes "\<not> truthy (opt_id opts)" and "onUpdated opts = None" and "state b = SArr xs"
  shows "handleUpdated opts item b =
           Done (b\<lparr>state := SArr (map (\<lambda>s. if strict_eq (get_prop s ''id'') (get_prop item ''id'')
                                          then Object_assign s item else s) xs)\<rparr>)"
  using assms
  by (simp add: handleUpdated_def setState_def handle_def updated_default_def isArray_def)

lemma handleUpdated_singular_default:
  assumes "truthy (opt_id opts)" and "onUpdated opts = None" and "state b = SObj s"
  shows "handleUpdated opts item b = Done (b\<lparr>state := SObj (Object_assign s item)\<rparr>)"
  using assms
  by (simp add: handleUpdated_def setState_def handle_def updated_default_def isArray_def)

lemma handleUpdated_trace: "trace (binding_of (handleUpdated opts item b)) = trace b"
  by (simp add: handleUpdated_def setState_def split: sum.splits)

lemma handleDestroyed_collection:
  assumes "\<not> truthy (opt_id opts)" and "onDestroyed opts = None" and "state b = SArr xs"
  shows "handleDestroyed opts delId b =
           Done (b\<lparr>state := SArr (filter (\<lambda>s. \<not> strict_eq (get_prop s ''id'') delId) xs)\<rparr>)"
  using assms
  by (simp add: handleDestroyed_def setState_def handle_def destroyed_default_def)

lemma handleDestroyed_singular:
  assumes "truthy (opt_id opts)"
  shows "state (binding_of (handleDestroyed opts delId b)) = SNull"
  using assms by (simp add: handleDestroyed_def Let_def)

section \<open>The default reducers\<close>

text \<open>
  Claim C3. The default created reducer decides by the id alone: when the collection
  already holds an entity whose id is strictly equal to the payload's id, the state is
  returned as it is (so the ids and the number of entities are the same); otherwise the
  payload is appended after the existing entities, which keep their order.
\<close>

theorem created_default_by_id:
  "((\<exists>s\<in>set xs. strict_eq (get_prop s ''id'') (get_prop item ''id'')) \<longrightarrow>
      created_default item (SArr xs) = Inr (SArr xs)) \<and>
   (\<not> (\<exists>s\<in>set xs. strict_eq (get_prop s ''id'') (get_prop item ''id'')) \<longrightarrow>
      created_default item (SArr xs) = Inr (SArr (xs @ [item])))"
  by (simp add: created_default_array)

theorem created_default_by_id_witness:
  "(\<exists>s\<in>set [post_a, post_b]. strict_eq (get_prop s ''id'') (get_prop post_b ''id'')) \<and>
   created_default post_b (SArr [post_a, post_b]) = Inr (SArr [post_a, post_b]) \<and>
   \<not> (\<exists>s\<in>set [post_a]. strict_eq (get_prop s ''id'') (get_prop post_b ''id'')) \<and>
   created_default post_b (SArr [post_a]) = Inr (SArr ([post_a] @ [post_b]))"
proof -
  have present: "\<exists>s\<in>set [post_a, post_b]. strict_eq (get_prop s ''id'') (get_prop post_b ''id'')"
    by (simp add: strict_eq_def get_prop_def post_a_def post_b_def)
  have absent: "\<not> (\<exists>s\<in>set [post_a]. strict_eq (get_prop s ''id'') (get_prop post_b ''id''))"
    by (simp add: strict_eq_def get_prop_def post_a_def post_b_def)
  from present absent
    created_default_by_id [of "[post_a, post_b]" post_b]
    created_default_by_id [of "[post_a]" post_b]
  show ?thesis by blast
qed

text \<open>
  Claim C4. In collection mode the default updated reducer merges the payload into the
  entities whose id is strictly equal to the payload's id, position by position: in such
  an entity every field the payload lists takes the payload's value and every other
  field stays as it was; an entity with another id is unchanged.
\<close>

theorem updated_default_merge:
  assumes "isArray opts"
  shows "\<exists>ys. updated_default opts item (SArr xs) = Inr (SArr ys) \<and>
           length ys = length xs \<and>
           (\<forall>i<length xs.
              if strict_eq (get_prop (xs ! i) ''id'') (get_prop item ''id'')
              then (\<forall>k. (ys ! i) k = (case item k of Some v \<Rightarrow> Some v | None \<Rightarrow> (xs ! i) k))
              else ys ! i = xs ! i)"
  using assms by (simp add: updated_default_def Object_assign_lookup)

text \<open>
  The specification's example: \<open>{id: 5, name: "x"}\<close> changes the name of the entity 5
  and nothing else.
\<close>

theorem updated_default_merge_witness:
  "isArray default_options \<and>
   updated_default default_options rename5 (SArr [post_a, user5]) = Inr (SArr [post_a, user5_x])"
proof -
  have arr: "isArray default_options"
    by (simp add: isArray_def default_options_def)
  from updated_default_merge [OF arr, of rename5 "[post_a, user5]"]
  obtain ys where ys: "updated_default default_options rename5 (SArr [post_a, user5]) = Inr (SArr ys)"
    and len: "length ys = 2"
    and each: "\<forall>i<2. if strict_eq (get_prop ([post_a, user5] ! i) ''id'') (get_prop rename5 ''id'')
              then (\<forall>k. (ys ! i) k = (case rename5 k of Some v \<Rightarrow> Some v | None \<Rightarrow> ([post_a, user5] ! i) k))
              else ys ! i = [post_a, user5] ! i"
    by auto
  from each have "ys ! 0 = post_a"
    by (simp add: strict_eq_def get_prop_def post_a_def rename5_def)
  moreover from each have "\<forall>k. (ys ! 1) k = (case rename5 k of Some v \<Rightarrow> Some v | None \<Rightarrow> user5 k)"
    by (simp add: strict_eq_def get_prop_def user5_def rename5_def)
  then have "ys ! 1 = user5_x"
    by (auto simp: fun_eq_iff user5_def user5_x_def rename5_def)
  moreover from len obtain y0 y1 where "ys = [y0, y1]"
    by (auto simp: length_Suc_conv eval_nat_numeral)
  ultimately have "ys = [post_a, user5_x]" by simp
  with arr ys show ?thesis by simp
qed

text \<open>
  Claim C10. In collection mode the default updated reducer returns a collection of the
  same length whose ids are, position by position, those of the input: nothing is
  inserted, removed or moved. A payload whose id matches no entity leaves the collection
  as it is.
\<close>

theorem updated_default_keeps_shape:
  assumes "isArray opts"
  shows "\<exists>ys. updated_default opts item (SArr xs) = Inr (SArr ys) \<and>
           length ys = length xs \<and>
           map (\<lambda>s. get_prop s ''id'') ys = map (\<lambda>s. get_prop s ''id'') xs \<and>
           ((\<forall>s\<in>set xs. \<not> strict_eq (get_prop s ''id'') (get_prop item ''id'')) \<longrightarrow> ys = xs)"
  using assms by (auto simp: updated_default_def Object_assign_id map_idI)

theorem updated_default_keeps_shape_witness:
  "isArray default_options \<and>
   \<not> strict_eq (get_prop post_a ''id'') (get_prop rename5 ''id'') \<and>
   updated_default default_options rename5 (SArr [post_a]) = Inr (SArr [post_a])"
proof -
  have arr: "isArray default_options"
    by (simp add: isArray_def default_options_def)
  have nomatch: "\<forall>s\<in>set [post_a]. \<not> strict_eq (get_prop s ''id'') (get_prop rename5 ''id'')"
    by (simp add: strict_eq_def get_prop_def post_a_def rename5_def)
  from updated_default_keeps_shape [OF arr, of rename5 "[post_a]"] nomatch
  have "updated_default default_options rename5 (SArr [post_a]) = Inr (SArr [post_a])"
    by auto
  with arr nomatch show ?thesis by simp
qed

section \<open>The destroyed event in singular mode\<close>

text \<open>
  Claim C9. With an id bound (the source tests \<open>if (id)\<close>, so the bound id is truthy), a
  delivered destroyed event sets the state to \<open>null\<close> and calls the \<open>onDestroyed\<close> handler,
  when there is one, with the delivered id. The delivered id is arbitrary: it is never
  compared with the bound id.
\<close>

theorem destroyed_event_singular:
  assumes "truthy (opt_id opts)"
  shows "\<exists>b'. destroyed_event opts delId b = Done b' \<and>
           state b' = SNull \<and>
           eventOverride b' = eventOverride b \<and>
           trace b' = trace b @ (case onDestroyed opts of
                                  None \<Rightarrow> []
                                | Some h \<Rightarrow> [Called_onDestroyed delId])"
  using assms
  by (simp add: destroyed_event_def handleDestroyed_def split: option.splits)

text \<open>The binding is bound to the id 1 and the event delivers the id 2.\<close>

theorem destroyed_event_singular_witness:
  "truthy (opt_id single_options_notify) \<and>
   \<not> strict_eq (Num 2) (opt_id single_options_notify) \<and>
   state (binding_of (destroyed_event single_options_notify (Num 2) single_binding)) = SNull \<and>
   trace (binding_of (destroyed_event single_options_notify (Num 2) single_binding)) =
     [Called_onDestroyed (Num 2)]"
proof -
  have bound: "truthy (opt_id single_options_notify)"
    by (simp add: single_options_notify_def single_options_def default_options_def)
  have other: "\<not> strict_eq (Num 2) (opt_id single_options_notify)"
    by (simp add: strict_eq_def single_options_notify_def single_options_def
        default_options_def)
  have handler: "onDestroyed single_options_notify = Some void_handler"
    by (simp add: single_options_notify_def)
  from destroyed_event_singular [OF bound, of "Num 2" single_binding] handler
  have "state (binding_of (destroyed_event single_options_notify (Num 2) single_binding)) = SNull"
    and "trace (binding_of (destroyed_event single_options_notify (Num 2) single_binding)) =
           [Called_onDestroyed (Num 2)]"
    by (auto simp: single_binding_def)
  with bound other show ?thesis by blast
qed

section \<open>Destroy\<close>

text \<open>
  Claim C5, as the source has it. Under \<open>"on-success"\<close> the delete request is awaited
  before the state is touched: when it is rejected the call throws and nothing is
  removed. In every other case the local removal is applied exactly when it is not the
  case that an event override is active and the effective method is \<open>"on-success"\<close>; in
  that one case the state stays as it is. The removal is \<open>handleDestroyed\<close>: with the
  default reducer of collection mode the state becomes the collection without the
  entities of the given id, the others in their order; with an id bound it becomes
  \<open>null\<close>. Under \<open>"immediate"\<close> and \<open>"local-only"\<close> the removal is therefore always
  applied, with or without an override and whatever becomes of the request.
\<close>

theorem destroyList_local_removal:
  "(effectiveMethod opts mo = OnSuccess \<and> resp = Rejected \<longrightarrow>
      destroyList sg opts res b i mo resp =
        Threw RequestFailed (issue (Delete (destroyRoute sg opts res i)) b)) \<and>
   (\<not> (effectiveMethod opts mo = OnSuccess \<and> resp = Rejected) \<longrightarrow>
      destroyList sg opts res b i mo resp =
        (if truthy (eventOverride b) \<and> effectiveMethod opts mo = OnSuccess
         then Done (issue (Delete (destroyRoute sg opts res i)) b)
         else handleDestroyed opts i
                (if effectiveMethod opts mo = LocalOnly then b
                 else issue (Delete (destroyRoute sg opts res i)) b))) \<and>
   (\<not> (effectiveMethod opts mo = OnSuccess \<and> resp = Rejected) \<and>
    truthy (eventOverride b) \<and> effectiveMethod opts mo = OnSuccess \<longrightarrow>
      state (binding_of (destroyList sg opts res b i mo resp)) = state b) \<and>
   (\<not> (effectiveMethod opts mo = OnSuccess \<and> resp = Rejected) \<and>
    \<not> (truthy (eventOverride b) \<and> effectiveMethod opts mo = OnSuccess) \<and>
    \<not> truthy (opt_id opts) \<and> onDestroyed opts = None \<and> state b = SArr xs \<longrightarrow>
      state (binding_of (destroyList sg opts res b i mo resp)) =
        SArr (filter (\<lambda>s. \<not> strict_eq (get_prop s ''id'') i) xs)) \<and>
   (\<not> (effectiveMethod opts mo = OnSuccess \<and> resp = Rejected) \<and>
    \<not> (truthy (eventOverride b) \<and> effectiveMethod opts mo = OnSuccess) \<and>
    truthy (opt_id opts) \<longrightarrow>
      state (binding_of (destroyList sg opts res b i mo resp)) = SNull)"
proof -
  have removed: "state (binding_of (handleDestroyed opts i
           (if effectiveMethod opts mo = LocalOnly then b
            else issue (Delete (destroyRoute sg opts res i)) b))) =
         SArr (filter (\<lambda>s. \<not> strict_eq (get_prop s ''id'') i) xs)"
    if "\<not> truthy (opt_id opts)" "onDestroyed opts = None" "state b = SArr xs"
  proof -
    have "state (if effectiveMethod opts mo = LocalOnly then b
            else issue (Delete (destroyRoute sg opts res i)) b) = SArr xs"
      using that(3) by (simp add: issue_state)
    from handleDestroyed_collection [OF that(1,2) this, of i] show ?thesis by simp
  qed
  have rejected: "destroyList sg opts res b i mo resp =
        Threw RequestFailed (issue (Delete (destroyRoute sg opts res i)) b)"
    if "effectiveMethod opts mo = OnSuccess" "resp = Rejected"
    using that by (simp add: destroyList_def Let_def)
  have decided: "destroyList sg opts res b i mo resp =
        (if truthy (eventOverride b) \<and> effectiveMethod opts mo = OnSuccess
         then Done (issue (Delete (destroyRoute sg opts res i)) b)
         else handleDestroyed opts i
                (if effectiveMethod opts mo = LocalOnly then b
                 else issue (Delete (destroyRoute sg opts res i)) b))"
    if "\<not> (effectiveMethod opts mo = OnSuccess \<and> resp = Rejected)"
    using that by (auto simp: destroyList_def Let_def)
  have kept: "state (binding_of (destroyList sg opts res b i mo resp)) = state b"
    if "\<not> (effectiveMethod opts mo = OnSuccess \<and> resp = Rejected)"
      "truthy (eventOverride b)" "effectiveMethod opts mo = OnSuccess"
    using that by (simp add: decided issue_state)
  have filtered: "state (binding_of (destroyList sg opts res b i mo resp)) =
        SArr (filter (\<lambda>s. \<not> strict_eq (get_prop s ''id'') i) xs)"
    if "\<not> (effectiveMethod opts mo = OnSuccess \<and> resp = Rejected)"
      "\<not> (truthy (eventOverride b) \<and> effectiveMethod opts mo = OnSuccess)"
      "\<not> truthy (opt_id opts)" "onDestroyed opts = None" "state b = SArr xs"
    using that(2) removed [OF that(3,4,5)] by (simp only: decided [OF that(1)] if_False)
  have nulled: "state (binding_of (destroyList sg opts res b i mo resp)) = SNull"
    if "\<not> (effectiveMethod opts mo = OnSuccess \<and> resp = Rejected)"
      "\<not> (truthy (eventOverride b) \<and> effectiveMethod opts mo = OnSuccess)"
      "truthy (opt_id opts)"
    using that(2) handleDestroyed_singular [OF that(3)]
    by (simp only: decided [OF that(1)] if_False)
  from rejected decided kept filtered nulled show ?thesis by blast
qed

text \<open>
  A collection of two posts, the post 1 destroyed: kept under an override with
  \<open>"on-success"\<close>, removed (the post 2 staying) in the other cases; and a binding bound
  to the id 1, whose state becomes \<open>null\<close>.
\<close>

theorem destroyList_local_removal_witness:
  "truthy (eventOverride two_binding_override) \<and>
   state (binding_of (destroyList drop_final_s default_options ''posts'' two_binding_override
            (Num 1) (Some OnSuccess) (Resolved Map.empty))) = SArr [post_a, post_b] \<and>
   state (binding_of (destroyList drop_final_s default_options ''posts'' two_binding_override
            (Num 1) (Some Immediate) Rejected)) = SArr [post_b] \<and>
   state (binding_of (destroyList drop_final_s default_options ''posts'' two_binding_override
            (Num 1) (Some LocalOnly) Rejected)) = SArr [post_b] \<and>
   state (binding_of (destroyList drop_final_s default_options ''posts'' two_binding
            (Num 1) None (Resolved Map.empty))) = SArr [post_b] \<and>
   destroyList drop_final_s default_options ''posts'' two_binding (Num 1) None Rejected =
     Threw RequestFailed
       (issue (Delete (destroyRoute drop_final_s default_options ''posts'' (Num 1))) two_binding) \<and>
   state (binding_of (destroyList drop_final_s single_options ''posts'' single_binding
            (Num 1) None (Resolved Map.empty))) = SNull"
proof -
  have ov: "truthy (eventOverride two_binding_override)"
    "\<not> truthy (eventOverride two_binding)" "\<not> truthy (eventOverride single_binding)"
    by (simp_all add: two_binding_override_def two_binding_def single_binding_def)
  have m: "effectiveMethod default_options (Some OnSuccess) = OnSuccess"
    "effectiveMethod default_options (Some Immediate) = Immediate"
    "effectiveMethod default_options (Some LocalOnly) = LocalOnly"
    "effectiveMethod default_options None = OnSuccess"
    "effectiveMethod single_options None = OnSuccess"
    by (simp_all add: effectiveMethod_def default_options_def single_options_def)
  have coll: "\<not> truthy (opt_id default_options)" "onDestroyed default_options = None"
    by (simp_all add: default_options_def)
  have single: "truthy (opt_id single_options)"
    by (simp add: single_options_def default_options_def)
  have st: "state two_binding_override = SArr [post_a, post_b]"
    "state two_binding = SArr [post_a, post_b]"
    by (simp_all add: two_binding_override_def two_binding_def)
  have gone: "filter (\<lambda>s. \<not> strict_eq (get_prop s ''id'') (Num 1)) [post_a, post_b] = [post_b]"
    by (simp add: strict_eq_def get_prop_def post_a_def post_b_def)
  have pre1: "\<not> (effectiveMethod default_options (Some OnSuccess) = OnSuccess \<and>
        Resolved Map.empty = Rejected) \<and>
      truthy (eventOverride two_binding_override) \<and>
      effectiveMethod default_options (Some OnSuccess) = OnSuccess"
    using ov(1) m(1) by simp
  have pre2: "\<not> (effectiveMethod default_options (Some Immediate) = OnSuccess \<and>
        Rejected = Rejected) \<and>
      \<not> (truthy (eventOverride two_binding_override) \<and>
         effectiveMethod default_options (Some Immediate) = OnSuccess) \<and>
      \<not> truthy (opt_id default_options) \<and> onDestroyed default_options = None \<and>
      state two_binding_override = SArr [post_a, post_b]"
    using m(2) coll st(1) by simp
  have pre3: "\<not> (effectiveMethod default_options (Some LocalOnly) = OnSuccess \<and>
        Rejected = Rejected) \<and>
      \<not> (truthy (eventOverride two_binding_override) \<and>
         effectiveMethod default_options (Some LocalOnly) = OnSuccess) \<and>
      \<not> truthy (opt_id default_options) \<and> onDestroyed default_options = None \<and>
      state two_binding_override = SArr [post_a, post_b]"
    using m(3) coll st(1) by simp
  have pre4: "\<not> (effectiveMethod default_options None = OnSuccess \<and>
        Resolved Map.empty = Rejected) \<and>
      \<not> (truthy (eventOverride two_binding) \<and>
         effectiveMethod default_options None = OnSuccess) \<and>
      \<not> truthy (opt_id default_options) \<and> onDestroyed default_options = None \<and>
      state two_binding = SArr [post_a, post_b]"
    using ov(2) coll st(2) by simp
  have pre5: "effectiveMethod default_options None = OnSuccess \<and> Rejected = Rejected"
    using m(4) by simp
  have pre6: "\<not> (effectiveMethod single_options None = OnSuccess \<and>
        Resolved Map.empty = Rejected) \<and>
      \<not> (truthy (eventOverride single_binding) \<and>
         effectiveMethod single_options None = OnSuccess) \<and>
      truthy (opt_id single_options)"
    using ov(3) single by simp
  have "state (binding_of (destroyList drop_final_s default_options ''posts''
          two_binding_override (Num 1) (Some OnSuccess) (Resolved Map.empty))) =
        state two_binding_override"
    using destroyList_local_removal [of default_options "Some OnSuccess" "Resolved Map.empty"
        drop_final_s "''posts''" two_binding_override "Num 1"] pre1
    by blast
  moreover have "state (binding_of (destroyList drop_final_s default_options ''posts''
          two_binding_override (Num 1) (Some Immediate) Rejected)) =
        SArr (filter (\<lambda>s. \<not> strict_eq (get_prop s ''id'') (Num 1)) [post_a, post_b])"
    using destroyList_local_removal [of default_options "Some Immediate" Rejected
        drop_final_s "''posts''" two_binding_override "Num 1" "[post_a, post_b]"] pre2
    by blast
  moreover have "state (binding_of (destroyList drop_final_s default_options ''posts''
          two_binding_override (Num 1) (Some LocalOnly) Rejected)) =
        SArr (filter (\<lambda>s. \<not> strict_eq (get_prop s ''id'') (Num 1)) [post_a, post_b])"
    using destroyList_local_removal [of default_options "Some LocalOnly" Rejected
        drop_final_s "''posts''" two_binding_override "Num 1" "[post_a, post_b]"] pre3
    by blast
  moreover have "state (binding_of (destroyList drop_final_s default_options ''posts''
          two_binding (Num 1) None (Resolved Map.empty))) =
        SArr (filter (\<lambda>s. \<not> strict_eq (get_prop s ''id'') (Num 1)) [post_a, post_b])"
    using destroyList_local_removal [of default_options None "Resolved Map.empty"
        drop_final_s "''posts''" two_binding "Num 1" "[post_a, post_b]"] pre4
    by blast
  moreover have "destroyList drop_final_s default_options ''posts'' two_binding (Num 1) None
          Rejected =
        Threw RequestFailed
          (issue (Delete (destroyRoute drop_final_s default_options ''posts'' (Num 1)))
             two_binding)"
    using destroyList_local_removal [of default_options None Rejected
        drop_final_s "''posts''" two_binding "Num 1"] pre5
    by blast
  moreover have "state (binding_of (destroyList drop_final_s single_options ''posts''
          single_binding (Num 1) None (Resolved Map.empty))) = SNull"
    using destroyList_local_removal [of single_options None "Resolved Map.empty"
        drop_final_s "''posts''" single_binding "Num 1"] pre6
    by blast
  ultimately show ?thesis using ov(1) st(1) gone by (simp only: simp_thms)
qed

text \<open>
  The claim as the specification states it, for every destroy call, fails when the
  delete request awaited under \<open>"on-success"\<close> is rejected: no override is active, so
  the removal should be applied and leave the collection empty, but the call throws
  and the post is still there.
\<close>

theorem destroyList_rejected_counterexample:
  "\<not> (truthy (eventOverride coll_binding) \<and> effectiveMethod default_options None = OnSuccess) \<and>
   state (binding_of (destroyList drop_final_s default_options ''posts'' coll_binding
            (Num 1) None Rejected)) = SArr [post_a] \<and>
   state (binding_of (handleDestroyed default_options (Num 1) coll_binding)) = SArr [] \<and>
   SArr [post_a] \<noteq> SArr []"
proof -
  have no_ov: "\<not> truthy (eventOverride coll_binding)"
    by (simp add: coll_binding_def)
  have m: "effectiveMethod default_options None = OnSuccess"
    by (simp add: effectiveMethod_def default_options_def)
  have coll: "\<not> truthy (opt_id default_options)" "onDestroyed default_options = None"
    by (simp_all add: default_options_def)
  have st: "state coll_binding = SArr [post_a]"
    by (simp add: coll_binding_def)
  have gone: "filter (\<lambda>s. \<not> strict_eq (get_prop s ''id'') (Num 1)) [post_a] = []"
    by (simp add: strict_eq_def get_prop_def post_a_def)
  have "state (binding_of (destroyList drop_final_s default_options ''posts'' coll_binding
            (Num 1) None Rejected)) = SArr [post_a]"
    by (simp add: destroyList_def Let_def m issue_state st)
  moreover have "state (binding_of (handleDestroyed default_options (Num 1) coll_binding)) =
      SArr []"
    by (simp add: handleDestroyed_collection [OF coll st] strict_eq_def get_prop_def
        post_a_def)
  ultimately show ?thesis using no_ov by simp
qed

section \<open>Store\<close>

text \<open>
  Claim C2. A store call in collection mode whose post request is answered: when an
  event override is active (the value held by the call is truthy) the state is not
  touched by the call, the entity being left to the event channel; when none is active
  the response, transformed and stripped of undefined fields, is handed to the created
  reducer at once, so that with the default reducer and no entity of that id in the
  collection the entity is the last element of the state when the call resolves.
\<close>

theorem store_override:
  "(truthy (eventOverride b) \<longrightarrow>
      store opts res b item (Resolved d) =
        Done (issue (Post (storeRoute opts res) (inverseTransformer opts item)) b) \<and>
      state (binding_of (store opts res b item (Resolved d))) = state b) \<and>
   (\<not> truthy (eventOverride b) \<longrightarrow>
      store opts res b item (Resolved d) =
        handleCreated opts (filter_obj (transformer opts d))
          (issue (Post (storeRoute opts res) (inverseTransformer opts item)) b)) \<and>
   (\<not> truthy (eventOverride b) \<and> onCreated opts = None \<and> state b = SArr xs \<and>
    \<not> (\<exists>s\<in>set xs. strict_eq (get_prop s ''id'')
                       (get_prop (filter_obj (transformer opts d)) ''id'')) \<longrightarrow>
      state (binding_of (store opts res b item (Resolved d))) =
        SArr (xs @ [filter_obj (transformer opts d)]))"
proof -
  have "state (binding_of (store opts res b item (Resolved d))) =
          SArr (xs @ [filter_obj (transformer opts d)])"
    if "\<not> truthy (eventOverride b)" "onCreated opts = None" "state b = SArr xs"
      "\<not> (\<exists>s\<in>set xs. strict_eq (get_prop s ''id'')
                       (get_prop (filter_obj (transformer opts d)) ''id''))"
  proof -
    have "state (issue (Post (storeRoute opts res) (inverseTransformer opts item)) b) = SArr xs"
      using that(3) by (simp add: issue_state)
    from handleCreated_default [OF that(2) this, of "filter_obj (transformer opts d)"] that(1,4)
    show ?thesis by (simp add: store_def Let_def)
  qed
  then show ?thesis
    by (simp add: store_def Let_def issue_state)
qed

theorem store_override_witness:
  "truthy (eventOverride coll_binding_override) \<and>
   state (binding_of (store default_options ''posts'' coll_binding_override title_b
            (Resolved post_b))) = SArr [post_a] \<and>
   \<not> truthy (eventOverride coll_binding) \<and>
   state (binding_of (store default_options ''posts'' coll_binding title_b
            (Resolved post_b))) = SArr [post_a, post_b]"
proof -
  have ov: "truthy (eventOverride coll_binding_override)"
    by (simp add: coll_binding_override_def)
  have no_ov: "\<not> truthy (eventOverride coll_binding)"
    by (simp add: coll_binding_def)
  have payload: "filter_obj (transformer default_options post_b) = post_b"
    by (simp add: default_options_def filter_obj_no_undefined post_b_def)
  have fresh: "\<not> (\<exists>s\<in>set [post_a]. strict_eq (get_prop s ''id'')
                       (get_prop (filter_obj (transformer default_options post_b)) ''id''))"
    unfolding payload by (simp add: strict_eq_def get_prop_def post_a_def post_b_def)
  have st: "state coll_binding_override = SArr [post_a]" "state coll_binding = SArr [post_a]"
    by (simp_all add: coll_binding_override_def coll_binding_def)
  have dflt: "onCreated default_options = None"
    by (simp add: default_options_def)
  have "state (binding_of (store default_options ''posts'' coll_binding_override title_b
            (Resolved post_b))) = state coll_binding_override"
    using store_override [of coll_binding_override default_options "''posts''" title_b post_b] ov
    by blast
  moreover have "state (binding_of (store default_options ''posts'' coll_binding title_b
            (Resolved post_b))) = SArr ([post_a] @ [filter_obj (transformer default_options post_b)])"
    using store_override [of coll_binding default_options "''posts''" title_b post_b "[post_a]"]
      no_ov fresh dflt st(2)
    by blast
  ultimately show ?thesis using ov no_ov st payload by simp
qed

section \<open>Update\<close>

lemma post_a_neq_b: "post_a \<noteq> post_a_b"
proof
  assume "post_a = post_a_b"
  then have "post_a ''title'' = post_a_b ''title''" by simp
  then show False by (simp add: post_a_def post_a_b_def)
qed

lemma post_a_b_payload: "filter_obj (transformer default_options post_a_b) = post_a_b"
  by (simp add: default_options_def filter_obj_no_undefined post_a_b_def)

lemma assign_post_a_b: "Object_assign post_a post_a_b = post_a_b"
  by (auto simp: fun_eq_iff Object_assign_lookup post_a_def post_a_b_def)

text \<open>
  Claim C1, as the source has it. An update under \<open>"on-success"\<close> whose put request is
  answered hands the transformed response to the updated reducer when no event override
  is active; when one is active the call leaves the state as it is, as store and destroy
  do. The guard \<open>if (!eventOverride)\<close> stands before \<open>handleUpdated(transformed)\<close>.
\<close>

theorem updateList_on_success:
  assumes "effectiveMethod opts mo = OnSuccess"
  shows "updateList sg opts res b i u mo (Resolved d) =
           (if truthy (eventOverride b)
            then Done (issue (Put (updateRoute sg opts res i)
                                  (filter_obj (inverseTransformer opts u))) b)
            else handleUpdated opts (filter_obj (transformer opts d))
                   (issue (Put (updateRoute sg opts res i)
                               (filter_obj (inverseTransformer opts u))) b))"
  using assms by (simp add: updateList_def Let_def)

theorem updateList_on_success_witness:
  "effectiveMethod default_options None = OnSuccess \<and>
   state (binding_of (updateList drop_final_s default_options ''posts'' coll_binding
            (Num 1) title_b None (Resolved post_a_b))) = SArr [post_a_b] \<and>
   state (binding_of (updateList drop_final_s default_options ''posts'' coll_binding_override
            (Num 1) title_b None (Resolved post_a_b))) = SArr [post_a]"
proof -
  have m: "effectiveMethod default_options None = OnSuccess"
    by (simp add: effectiveMethod_def default_options_def)
  have coll: "\<not> truthy (opt_id default_options)" "onUpdated default_options = None"
    by (simp_all add: default_options_def)
  have same: "strict_eq (get_prop post_a ''id'') (get_prop post_a_b ''id'')"
    by (simp add: strict_eq_def get_prop_def post_a_def post_a_b_def)
  have st: "state coll_binding_override = SArr [post_a]" "state coll_binding = SArr [post_a]"
    by (simp_all add: coll_binding_override_def coll_binding_def)
  have ov: "truthy (eventOverride coll_binding_override)" "\<not> truthy (eventOverride coll_binding)"
    by (simp_all add: coll_binding_override_def coll_binding_def)
  have "state (binding_of (updateList drop_final_s default_options ''posts'' coll_binding
            (Num 1) title_b None (Resolved post_a_b))) = SArr [post_a_b]"
    using updateList_on_success [OF m, of drop_final_s "''posts''" coll_binding "Num 1"
        title_b post_a_b] same ov(2)
    by (simp add: handleUpdated_collection_default [OF coll, of _ "[post_a]"]
        post_a_b_payload assign_post_a_b issue_state st)
  moreover have "state (binding_of (updateList drop_final_s default_options ''posts''
            coll_binding_override (Num 1) title_b None (Resolved post_a_b))) = SArr [post_a]"
    using updateList_on_success [OF m, of drop_final_s "''posts''" coll_binding_override
        "Num 1" title_b post_a_b] ov(1)
    by (simp add: issue_state st)
  ultimately show ?thesis using m by simp
qed

text \<open>
  The claim as the specification states it, that the response is applied whether or not
  an override is active, fails: with an override the state keeps the title \<open>a\<close>, where
  the updated reducer applied to the response would give the title \<open>b\<close>.
\<close>

theorem updateList_override_counterexample:
  "effectiveMethod default_options (Some OnSuccess) = OnSuccess \<and>
   truthy (eventOverride coll_binding_override) \<and>
   state (binding_of (updateList drop_final_s default_options ''posts'' coll_binding_override
            (Num 1) title_b (Some OnSuccess) (Resolved post_a_b))) = SArr [post_a] \<and>
   state (binding_of (handleUpdated default_options
            (filter_obj (transformer default_options post_a_b)) coll_binding_override)) =
     SArr [post_a_b] \<and>
   SArr [post_a] \<noteq> SArr [post_a_b]"
proof -
  have m: "effectiveMethod default_options (Some OnSuccess) = OnSuccess"
    by (simp add: effectiveMethod_def)
  have coll: "\<not> truthy (opt_id default_options)" "onUpdated default_options = None"
    by (simp_all add: default_options_def)
  have same: "strict_eq (get_prop post_a ''id'') (get_prop post_a_b ''id'')"
    by (simp add: strict_eq_def get_prop_def post_a_def post_a_b_def)
  have st: "state coll_binding_override = SArr [post_a]"
    by (simp add: coll_binding_override_def)
  have ov: "truthy (eventOverride coll_binding_override)"
    by (simp add: coll_binding_override_def)
  have "state (binding_of (updateList drop_final_s default_options ''posts''
            coll_binding_override (Num 1) title_b (Some OnSuccess) (Resolved post_a_b))) =
          SArr [post_a]"
    using ov by (simp add: updateList_def Let_def m issue_state st)
  moreover have "state (binding_of (handleUpdated default_options
            (filter_obj (transformer default_options post_a_b)) coll_binding_override)) =
          SArr [post_a_b]"
    using same
    by (simp add: handleUpdated_collection_default [OF coll st]
        post_a_b_payload assign_post_a_b)
  ultimately show ?thesis using m ov post_a_neq_b by simp
qed

text \<open>
  Claim C7, as the source has it. An update under \<open>"local-only"\<close> is the updated reducer
  applied to the object \<open>{id, ...update}\<close>, before anything else happens, and nothing is
  added to the requests, whatever the HTTP client would answer. The payload has the
  fields of the update and, unless the update carries an \<open>id\<close> field of its own, which
  then wins, the target id as its \<open>id\<close>. With the default reducer the result is spelt
  out field by field: with an id bound and an entity as state, the new state is that
  entity with the payload's fields written over it and its other fields kept; in
  collection mode every entity whose id is the payload's id is changed in that way and
  every other entity is unchanged. \<open>updateSingle\<close> is \<open>updateList\<close> with the bound id as
  target.
\<close>

theorem updateList_local_only:
  assumes "effectiveMethod opts mo = LocalOnly"
  shows "updateList sg opts res b i u mo resp = handleUpdated opts (spread ''id'' i (Some u)) b \<and>
         updateSingle sg opts res b u mo resp =
           handleUpdated opts (spread ''id'' (opt_id opts) (Some u)) b \<and>
         trace (binding_of (updateList sg opts res b i u mo resp)) = trace b \<and>
         (\<forall>k. spread ''id'' i (Some u) k =
               (case u k of Some w \<Rightarrow> Some w | None \<Rightarrow> if k = ''id'' then Some i else None)) \<and>
         (truthy (opt_id opts) \<and> onUpdated opts = None \<and> state b = SObj s \<longrightarrow>
            (\<exists>e. updateSingle sg opts res b u mo resp = Done (b\<lparr>state := SObj e\<rparr>) \<and>
                 (\<forall>k. e k = (case u k of
                                Some w \<Rightarrow> Some w
                              | None \<Rightarrow> if k = ''id'' then Some (opt_id opts) else s k)))) \<and>
         (\<not> truthy (opt_id opts) \<and> onUpdated opts = None \<and> state b = SArr xs \<longrightarrow>
            (\<exists>ys. updateList sg opts res b i u mo resp = Done (b\<lparr>state := SArr ys\<rparr>) \<and>
                  length ys = length xs \<and>
                  (\<forall>n<length xs.
                     if strict_eq (get_prop (xs ! n) ''id'')
                          (get_prop (spread ''id'' i (Some u)) ''id'')
                     then (\<forall>k. (ys ! n) k =
                                (case u k of
                                   Some w \<Rightarrow> Some w
                                 | None \<Rightarrow> if k = ''id'' then Some i else (xs ! n) k))
                     else ys ! n = xs ! n)))"
proof -
  have call: "updateList sg opts res b j u mo resp =
      handleUpdated opts (spread ''id'' j (Some u)) b" for j
    using assms by (simp add: updateList_def Let_def)
  have merged: "Object_assign t (spread ''id'' j (Some u)) k =
      (case u k of Some w \<Rightarrow> Some w | None \<Rightarrow> if k = ''id'' then Some j else t k)" for t j k
    by (simp add: Object_assign_lookup spread_lookup split: option.splits)
  have single: "\<exists>e. updateSingle sg opts res b u mo resp = Done (b\<lparr>state := SObj e\<rparr>) \<and>
      (\<forall>k. e k = (case u k of
                     Some w \<Rightarrow> Some w
                   | None \<Rightarrow> if k = ''id'' then Some (opt_id opts) else s k))"
    if "truthy (opt_id opts)" "onUpdated opts = None" "state b = SObj s"
  proof -
    have "updateSingle sg opts res b u mo resp =
        Done (b\<lparr>state := SObj (Object_assign s (spread ''id'' (opt_id opts) (Some u)))\<rparr>)"
      using handleUpdated_singular_default [OF that, of "spread ''id'' (opt_id opts) (Some u)"]
      by (simp add: updateSingle_def call)
    moreover have "\<forall>k. Object_assign s (spread ''id'' (opt_id opts) (Some u)) k =
        (case u k of
           Some w \<Rightarrow> Some w
         | None \<Rightarrow> if k = ''id'' then Some (opt_id opts) else s k)"
      by (simp add: merged)
    ultimately show ?thesis by blast
  qed
  have coll: "\<exists>ys. updateList sg opts res b i u mo resp = Done (b\<lparr>state := SArr ys\<rparr>) \<and>
      length ys = length xs \<and>
      (\<forall>n<length xs.
         if strict_eq (get_prop (xs ! n) ''id'') (get_prop (spread ''id'' i (Some u)) ''id'')
         then (\<forall>k. (ys ! n) k =
                    (case u k of
                       Some w \<Rightarrow> Some w
                     | None \<Rightarrow> if k = ''id'' then Some i else (xs ! n) k))
         else ys ! n = xs ! n)"
    if "\<not> truthy (opt_id opts)" "onUpdated opts = None" "state b = SArr xs"
  proof -
    let ?ys = "map (\<lambda>s. if strict_eq (get_prop s ''id'')
                              (get_prop (spread ''id'' i (Some u)) ''id'')
                        then Object_assign s (spread ''id'' i (Some u)) else s) xs"
    have "updateList sg opts res b i u mo resp = Done (b\<lparr>state := SArr ?ys\<rparr>)"
      using handleUpdated_collection_default [OF that, of "spread ''id'' i (Some u)"]
      by (simp add: call)
    moreover have "length ?ys = length xs" by simp
    moreover have "\<forall>n<length xs.
         if strict_eq (get_prop (xs ! n) ''id'') (get_prop (spread ''id'' i (Some u)) ''id'')
         then (\<forall>k. (?ys ! n) k =
                    (case u k of
                       Some w \<Rightarrow> Some w
                     | None \<Rightarrow> if k = ''id'' then Some i else (xs ! n) k))
         else ?ys ! n = xs ! n"
      by (simp add: merged)
    ultimately show ?thesis by blast
  qed
  from single coll show ?thesis
    by (simp add: call updateSingle_def handleUpdated_trace spread_lookup)
qed

text \<open>
  The specification's scenario, with an entity that has one more field: bound to the
  id 1 with the state \<open>{id: 1, title: "a", body: "x"}\<close>,
  \<open>update({title: "c"}, "local-only")\<close> gives \<open>{id: 1, title: "c", body: "x"}\<close> and no
  request.
\<close>

theorem updateList_local_only_witness:
  "effectiveMethod single_options (Some LocalOnly) = LocalOnly \<and>
   truthy (opt_id single_options) \<and>
   state article_binding = SObj article \<and>
   updateSingle drop_final_s single_options ''posts'' article_binding title_c (Some LocalOnly)
     Rejected = Done (article_binding\<lparr>state := SObj article_c\<rparr>) \<and>
   trace (binding_of (updateList drop_final_s single_options ''posts'' article_binding (Num 1)
     title_c (Some LocalOnly) Rejected)) = trace article_binding"
proof -
  have m: "effectiveMethod single_options (Some LocalOnly) = LocalOnly"
    by (simp add: effectiveMethod_def)
  have single: "truthy (opt_id single_options)" "onUpdated single_options = None"
    "opt_id single_options = Num 1"
    by (simp_all add: single_options_def default_options_def)
  have st: "state article_binding = SObj article"
    by (simp add: article_binding_def)
  note local = updateList_local_only [OF m, of drop_final_s "''posts''" article_binding "Num 1"
      title_c Rejected article]
  from local single(1,2) st
  obtain e where e: "updateSingle drop_final_s single_options ''posts'' article_binding title_c
          (Some LocalOnly) Rejected = Done (article_binding\<lparr>state := SObj e\<rparr>)"
    and fields: "\<forall>k. e k = (case title_c k of
                              Some w \<Rightarrow> Some w
                            | None \<Rightarrow> if k = ''id'' then Some (opt_id single_options)
                                      else article k)"
    by blast
  from fields have "e = article_c"
    by (auto simp: fun_eq_iff single(3) title_c_def article_def article_c_def)
  with e have "updateSingle drop_final_s single_options ''posts'' article_binding title_c
          (Some LocalOnly) Rejected = Done (article_binding\<lparr>state := SObj article_c\<rparr>)"
    by simp
  moreover from local
  have "trace (binding_of (updateList drop_final_s single_options ''posts'' article_binding
          (Num 1) title_c (Some LocalOnly) Rejected)) = trace article_binding"
    by blast
  ultimately show ?thesis
    using m single(1) st by simp
qed

text \<open>
  The claim as the specification states it, the payload being the update extended with
  the target id, fails for an update that carries an id of its own: the target is the
  post 1 and the update is \<open>{id: 2, title: "c"}\<close>. The source changes the post 2 and
  leaves the post 1; the updated reducer applied to the update with its id set to the
  target would change the post 1 and leave the post 2.
\<close>

theorem updateList_own_id_counterexample:
  "effectiveMethod default_options (Some LocalOnly) = LocalOnly \<and>
   state (binding_of (updateList drop_final_s default_options ''posts'' two_binding (Num 1)
            retitle2 (Some LocalOnly) Rejected)) = SArr [post_a, post_b_c] \<and>
   state (binding_of (handleUpdated default_options (retitle2(''id'' \<mapsto> Num 1)) two_binding)) =
     SArr [post_a_c, post_b] \<and>
   SArr [post_a, post_b_c] \<noteq> SArr [post_a_c, post_b]"
proof -
  have m: "effectiveMethod default_options (Some LocalOnly) = LocalOnly"
    by (simp add: effectiveMethod_def)
  have coll: "\<not> truthy (opt_id default_options)" "onUpdated default_options = None"
    by (simp_all add: default_options_def)
  have st: "state two_binding = SArr [post_a, post_b]"
    by (simp add: two_binding_def)
  have own: "spread ''id'' (Num 1) (Some retitle2) = retitle2"
    by (auto simp: fun_eq_iff spread_lookup retitle2_def)
  have ids: "\<not> strict_eq (get_prop post_a ''id'') (get_prop retitle2 ''id'')"
    "strict_eq (get_prop post_b ''id'') (get_prop retitle2 ''id'')"
    "strict_eq (get_prop post_a ''id'') (get_prop (retitle2(''id'' \<mapsto> Num 1)) ''id'')"
    "\<not> strict_eq (get_prop post_b ''id'') (get_prop (retitle2(''id'' \<mapsto> Num 1)) ''id'')"
    by (simp_all add: strict_eq_def get_prop_def post_a_def post_b_def retitle2_def)
  have merged: "Object_assign post_b retitle2 = post_b_c"
    "Object_assign post_a (retitle2(''id'' \<mapsto> Num 1)) = post_a_c"
    by (auto simp: fun_eq_iff Object_assign_lookup post_a_def post_b_def retitle2_def
        post_b_c_def post_a_c_def)
  have "state (binding_of (updateList drop_final_s default_options ''posts'' two_binding (Num 1)
            retitle2 (Some LocalOnly) Rejected)) = SArr [post_a, post_b_c]"
    using ids(1,2)
    by (simp add: updateList_def Let_def m own merged(1)
        handleUpdated_collection_default [OF coll st])
  moreover have "state (binding_of (handleUpdated default_options
            (retitle2(''id'' \<mapsto> Num 1)) two_binding)) = SArr [post_a_c, post_b]"
    using ids(3,4)
    by (simp add: merged(2) handleUpdated_collection_default [OF coll st])
  moreover have "post_a \<noteq> post_a_c"
  proof
    assume "post_a = post_a_c"
    then have "post_a ''title'' = post_a_c ''title''" by simp
    then show False by (simp add: post_a_def post_a_c_def)
  qed
  ultimately show ?thesis using m by simp
qed

section \<open>The route parameter name\<close>

lemma split_dot_no_dot: "CHR ''.'' \<notin> set r \<Longrightarrow> split_dot r = [r]"
  by (induction r) auto

lemma split_dot_length:
  "length (split_dot r) = Suc (length (filter (\<lambda>c. c = CHR ''.'') r))"
  by (induction r) (auto split: list.splits)

lemma split_dot_last_Cons:
  assumes "CHR ''.'' \<in> set cs"
  shows "last (split_dot (c # cs)) = last (split_dot cs)"
proof -
  from assms have "filter (\<lambda>c. c = CHR ''.'') cs \<noteq> []"
    by (simp add: filter_empty_conv)
  then have "2 \<le> length (split_dot cs)"
    by (cases "filter (\<lambda>c. c = CHR ''.'') cs") (simp_all add: split_dot_length)
  then obtain seg seg' segs where "split_dot cs = seg # seg' # segs"
    by (cases "split_dot cs"; cases "tl (split_dot cs)") auto
  then show ?thesis by simp
qed

lemma final_segment_no_dot:
  assumes "CHR ''.'' \<notin> set r"
  shows "final_segment r = r"
proof -
  from assms have "takeWhile (\<lambda>c. c \<noteq> CHR ''.'') (rev r) = rev r"
    by auto
  then show ?thesis
    unfolding final_segment_def by (simp only: rev_rev_ident)
qed

lemma final_segment_Cons:
  "CHR ''.'' \<in> set cs \<Longrightarrow> final_segment (c # cs) = final_segment cs"
  by (auto simp: final_segment_def takeWhile_append)

lemma final_segment_dot: "CHR ''.'' \<notin> set cs \<Longrightarrow> final_segment (CHR ''.'' # cs) = cs"
  by (auto simp: final_segment_def takeWhile_append)

lemma last_split_dot: "last (split_dot r) = final_segment r"
proof (induction r)
  case Nil
  then show ?case by (simp add: final_segment_def)
next
  case (Cons c cs)
  show ?case
  proof (cases "CHR ''.'' \<in> set cs")
    case True
    with Cons show ?thesis
      by (simp only: split_dot_last_Cons final_segment_Cons)
  next
    case False
    then show ?thesis
      by (cases "c = CHR ''.''")
        (simp_all add: split_dot_no_dot final_segment_dot final_segment_no_dot)
  qed
qed

text \<open>
  Claim C8. Without a \<open>paramName\<close> option the parameter name is the singular form, as
  \<open>pluralize.singular\<close> gives it, of the final dot-delimited segment of the resource
  name; with the option it is the option's value as it is. For \<open>"org.users"\<close> the
  segment is \<open>"users"\<close>, so the name is \<open>"user"\<close> once the singular of \<open>"users"\<close> is
  \<open>"user"\<close>.
\<close>

theorem paramName_convention:
  "(paramNameOverride opts = None \<longrightarrow> paramName sg opts r = sg (final_segment r)) \<and>
   (paramNameOverride opts = Some p \<longrightarrow> paramName sg opts r = p) \<and>
   (paramNameOverride opts = None \<and> sg ''users'' = ''user'' \<longrightarrow>
      paramName sg opts ''org.users'' = ''user'')"
proof -
  have "final_segment ''org.users'' = ''users''"
    by (simp add: final_segment_def)
  then show ?thesis
    by (simp add: paramName_def last_split_dot)
qed

theorem paramName_convention_witness:
  "paramNameOverride default_options = None \<and>
   drop_final_s ''users'' = ''user'' \<and>
   paramName drop_final_s default_options ''org.users'' = ''user'' \<and>
   paramNameOverride (default_options\<lparr>paramNameOverride := Some ''member''\<rparr>) = Some ''member'' \<and>
   paramName drop_final_s (default_options\<lparr>paramNameOverride := Some ''member''\<rparr>)
     ''org.users'' = ''member''"
proof -
  have none: "paramNameOverride default_options = None"
    by (simp add: default_options_def)
  have sg: "drop_final_s ''users'' = ''user''"
    by (simp add: drop_final_s_def)
  from paramName_convention [of default_options drop_final_s "''org.users''"] none sg
  have "paramName drop_final_s default_options ''org.users'' = ''user''"
    by blast
  moreover
  from paramName_convention [of "default_options\<lparr>paramNameOverride := Some ''member''\<rparr>"
      drop_final_s "''org.users''" "''member''"]
  have "paramName drop_final_s (default_options\<lparr>paramNameOverride := Some ''member''\<rparr>)
     ''org.users'' = ''member''"
    by simp
  ultimately show ?thesis using none sg by simp
qed

section \<open>Outbound bodies\<close>

lemma store_body:
  "trace (binding_of (store opts res b item resp)) =
     trace b @ [Request (Post (storeRoute opts res) (inverseTransformer opts item))]"
  by (simp add: store_def Let_def handleCreated_trace issue_trace split: response.splits)

lemma update_on_success_body:
  assumes "effectiveMethod opts mo = OnSuccess"
  shows "trace (binding_of (updateList sg opts res b i u mo resp)) =
           trace b @ [Request (Put (updateRoute sg opts res i)
                                   (filter_obj (inverseTransformer opts u)))]"
  using assms
  by (simp add: updateList_def Let_def handleUpdated_trace issue_trace split: response.splits)

lemma update_immediate_body:
  assumes "effectiveMethod opts mo = Immediate"
  shows "trace (binding_of (updateList sg opts res b i u mo resp)) =
           trace b @ [Request (Put (updateRoute sg opts res i)
                                   (filter_obj (inverseTransformer opts u)))]"
proof -
  have "trace (binding_of (handleUpdated opts (spread ''id'' i (Some u)) b)) = trace b"
    by (rule handleUpdated_trace)
  with assms show ?thesis
    by (cases resp; cases "handleUpdated opts (spread ''id'' i (Some u)) b")
      (simp_all add: updateList_def Let_def issue_trace)
qed

text \<open>
  Claim C6. The bodies of the put requests of update are filtered
  (\<open>update_on_success_body\<close>, \<open>update_immediate_body\<close>), and \<open>filter\<close> drops exactly the
  fields whose value is \<open>undefined\<close> (\<open>filter_obj_lookup\<close>). The body of the post request
  of store is \<open>inverseTransformer(item)\<close> as it is (\<open>store_body\<close>): for the item
  \<open>{name: undefined, age: 5}\<close> under the default options the body handed to the HTTP
  client still has the field \<open>name\<close> with the value \<open>undefined\<close>, which filtering would
  have removed.
\<close>

theorem store_body_not_filtered:
  "trace (binding_of (store default_options ''posts'' coll_binding partial_item
            (Resolved post_b))) =
     [Request (Post (Route ''posts.store'' None) partial_item)] \<and>
   partial_item ''name'' = Some Undefined \<and>
   filter_obj partial_item ''name'' = None"
  by (simp add: store_def Let_def issue_def handleCreated_def setState_def storeRoute_def
      default_options_def coll_binding_def partial_item_def filter_obj_lookup
      split: sum.splits)

end
